theory Spec2Isabelle
  imports Complex_Main "HOL-Library.Sublist"
begin

section \<open>JavaScript numbers and strings\<close>

text \<open>
  A JavaScript number is a double: finite, an infinity or NaN.  \<open>Fin x\<close> is the finite
  double whose value is the real \<open>x\<close>; the two zeros are not told apart.
\<close>

datatype jsnum = NaN | PosInf | NegInf | Fin real

text \<open>
  The arithmetic of doubles rounds every finite result to a double.  The rounding is a
  parameter \<open>rnd\<close> of every function that computes with doubles: \<open>rnd x\<close> is the double
  that IEEE 754 gives for the exact result \<open>x\<close> (nearest double, an infinity on
  overflow).  Comparisons, \<open>Math.round\<close>, \<open>Math.ceil\<close> and the decimal expansion of
  \<open>toFixed\<close> work on the exact value of a double and need no rounding.
\<close>

type_synonym rounding = "real \<Rightarrow> jsnum"

text \<open>\<open>a + b\<close>\<close>

fun js_add :: "rounding \<Rightarrow> jsnum \<Rightarrow> jsnum \<Rightarrow> jsnum" where
  "js_add rnd NaN b = NaN"
| "js_add rnd a NaN = NaN"
| "js_add rnd PosInf NegInf = NaN"
| "js_add rnd NegInf PosInf = NaN"
| "js_add rnd PosInf b = PosInf"
| "js_add rnd NegInf b = NegInf"
| "js_add rnd (Fin x) PosInf = PosInf"
| "js_add rnd (Fin x) NegInf = NegInf"
| "js_add rnd (Fin x) (Fin y) = rnd (x + y)"

text \<open>\<open>a * b\<close>\<close>

fun js_mul :: "rounding \<Rightarrow> jsnum \<Rightarrow> jsnum \<Rightarrow> jsnum" where
  "js_mul rnd NaN b = NaN"
| "js_mul rnd a NaN = NaN"
| "js_mul rnd PosInf PosInf = PosInf"
| "js_mul rnd PosInf NegInf = NegInf"
| "js_mul rnd NegInf PosInf = NegInf"
| "js_mul rnd NegInf NegInf = PosInf"
| "js_mul rnd PosInf (Fin y) = (if 0 < y then PosInf else if y < 0 then NegInf else NaN)"
| "js_mul rnd NegInf (Fin y) = (if 0 < y then NegInf else if y < 0 then PosInf else NaN)"
| "js_mul rnd (Fin x) PosInf = (if 0 < x then PosInf else if x < 0 then NegInf else NaN)"
| "js_mul rnd (Fin x) NegInf = (if 0 < x then NegInf else if x < 0 then PosInf else NaN)"
| "js_mul rnd (Fin x) (Fin y) = rnd (x * y)"

text \<open>
  \<open>a / b\<close>.  A zero divisor is read as \<open>+0\<close>: the code divides by lengths and counts
  only.
\<close>

fun js_div :: "rounding \<Rightarrow> jsnum \<Rightarrow> jsnum \<Rightarrow> jsnum" where
  "js_div rnd NaN b = NaN"
| "js_div rnd a NaN = NaN"
| "js_div rnd PosInf PosInf = NaN"
| "js_div rnd PosInf NegInf = NaN"
| "js_div rnd NegInf PosInf = NaN"
| "js_div rnd NegInf NegInf = NaN"
| "js_div rnd PosInf (Fin y) = (if 0 \<le> y then PosInf else NegInf)"
| "js_div rnd NegInf (Fin y) = (if 0 \<le> y then NegInf else PosInf)"
| "js_div rnd (Fin x) PosInf = Fin 0"
| "js_div rnd (Fin x) NegInf = Fin 0"
| "js_div rnd (Fin x) (Fin y) =
     (if y = 0 then (if x = 0 then NaN else if 0 < x then PosInf else NegInf)
      else rnd (x / y))"

text \<open>\<open>a < b\<close>\<close>

fun js_lt :: "jsnum \<Rightarrow> jsnum \<Rightarrow> bool" where
  "js_lt NaN b = False"
| "js_lt a NaN = False"
| "js_lt PosInf b = False"
| "js_lt NegInf NegInf = False"
| "js_lt NegInf b = True"
| "js_lt (Fin x) PosInf = True"
| "js_lt (Fin x) NegInf = False"
| "js_lt (Fin x) (Fin y) = (x < y)"

text \<open>\<open>Math.round\<close>: the nearest integer, a tie going towards \<open>+\<infinity>\<close>.\<close>

fun Math_round :: "jsnum \<Rightarrow> jsnum" where
  "Math_round (Fin x) = Fin (real_of_int \<lfloor>x + 1 / 2\<rfloor>)"
| "Math_round n = n"

text \<open>
  \<open>Number(x.toFixed(2))\<close>.  \<open>toFixed(2)\<close> prints the multiple of 1/100 nearest to the
  exact value of the double, a tie going away from zero (\<open>round2\<close>); from \<open>10^21\<close> on it
  prints the number itself; \<open>NaN\<close> and the infinities are printed by name.  \<open>Number\<close>
  reads the decimal back as a double.
\<close>

definition round2 :: "real \<Rightarrow> real" where
  "round2 x =
     (if 0 \<le> x then real_of_int \<lfloor>x * 100 + 1 / 2\<rfloor> / 100
      else - (real_of_int \<lfloor>(- x) * 100 + 1 / 2\<rfloor> / 100))"

fun toFixed2 :: "rounding \<Rightarrow> jsnum \<Rightarrow> jsnum" where
  "toFixed2 rnd (Fin x) = (if 10 ^ 21 \<le> \<bar>x\<bar> then Fin x else rnd (round2 x))"
| "toFixed2 rnd n = n"

text \<open>\<open>Math.ceil\<close>\<close>

fun Math_ceil :: "jsnum \<Rightarrow> jsnum" where
  "Math_ceil (Fin x) = Fin (real_of_int \<lceil>x\<rceil>)"
| "Math_ceil n = n"

text \<open>
  \<open>xs.slice(0, end)\<close>: the end is truncated towards zero (NaN reads as 0); a negative
  end counts from the end of the array.
\<close>

definition js_trunc :: "real \<Rightarrow> int" where
  "js_trunc x = (if 0 \<le> x then \<lfloor>x\<rfloor> else \<lceil>x\<rceil>)"

fun slice0 :: "jsnum \<Rightarrow> 'a list \<Rightarrow> 'a list" where
  "slice0 NaN xs = []"
| "slice0 PosInf xs = xs"
| "slice0 NegInf xs = []"
| "slice0 (Fin x) xs =
     (if js_trunc x < 0 then take (nat (int (length xs) + js_trunc x)) xs
      else take (nat (js_trunc x)) xs)"

text \<open>
  An untyped JavaScript value: what a request's query object holds, and what a store
  predicate is built from.  An object keeps its properties in insertion order.
\<close>

datatype jsval =
    JUndefined
  | JNull
  | JBool bool
  | JNum jsnum
  | JStr string
  | JArr "jsval list"
  | JObj "(string \<times> jsval) list"

text \<open>The truthiness test of \<open>if (v)\<close>, \<open>v && ...\<close> and \<open>v || ...\<close>.\<close>

fun truthy :: "jsval \<Rightarrow> bool" where
  "truthy JUndefined = False"
| "truthy JNull = False"
| "truthy (JBool b) = b"
| "truthy (JNum n) = (n \<noteq> NaN \<and> n \<noteq> Fin 0)"
| "truthy (JStr s) = (s \<noteq> [])"
| "truthy (JArr xs) = True"
| "truthy (JObj ps) = True"

text \<open>\<open>obj[k] = v\<close>: a new key goes last, an old key keeps its place.\<close>

fun set_prop :: "string \<Rightarrow> jsval \<Rightarrow> (string \<times> jsval) list \<Rightarrow> (string \<times> jsval) list" where
  "set_prop k v [] = [(k, v)]"
| "set_prop k v ((k', v') # ps) =
     (if k = k' then (k, v) # ps else (k', v') # set_prop k v ps)"

text \<open>\<open>if (c) { x = f(x) }\<close>: a statement that updates \<open>x\<close> under a condition.\<close>

definition js_if :: "bool \<Rightarrow> ('a \<Rightarrow> 'a) \<Rightarrow> 'a \<Rightarrow> 'a" where
  "js_if c f x = (if c then f x else x)"

text \<open>\<open>s.toLowerCase()\<close> on the ASCII letters, and \<open>s.includes(needle)\<close>.\<close>

definition toLowerCase_char :: "char \<Rightarrow> char" where
  "toLowerCase_char c =
     (case map_of (zip ''ABCDEFGHIJKLMNOPQRSTUVWXYZ'' ''abcdefghijklmnopqrstuvwxyz'') c of
        None \<Rightarrow> c
      | Some l \<Rightarrow> l)"

definition toLowerCase :: "string \<Rightarrow> string" where
  "toLowerCase s = map toLowerCase_char s"

fun str_includes :: "string \<Rightarrow> string \<Rightarrow> bool" where
  "str_includes [] needle = (needle = [])"
| "str_includes (c # cs) needle = (prefix needle (c # cs) \<or> str_includes cs needle)"


section \<open>The filter normalizer (\<open>parseFilters\<close>)\<close>

text \<open>
  \<open>ProblemFilters\<close>: every field is optional (\<open>None\<close> is \<open>undefined\<close>).  The three
  tri-state fields may also hold \<open>null\<close>: \<open>Some None\<close>.
\<close>

record ProblemFilters =
  impactLevel :: "jsval list option"
  severityLevel :: "jsval list option"
  status :: "jsval list option"
  managementZones :: "jsval list option"
  affectedEntityTypes :: "jsval list option"
  entityTags :: "jsval list option"
  evidenceType :: "jsval list option"
  dateFrom :: "jsval option"
  dateTo :: "jsval option"
  search :: "jsval option"
  durationMin :: "jsnum option"
  durationMax :: "jsnum option"
  hasComments :: "bool option"
  hasGitHubActions :: "bool option"
  hasRootCause :: "bool option option"
  autoremediado :: "bool option option"
  funcionoAutoRemediacion :: "bool option option"

text \<open>\<open>const filters: ProblemFilters = {}\<close>\<close>

definition no_filters :: ProblemFilters where
  "no_filters =
     \<lparr>impactLevel = None, severityLevel = None, status = None, managementZones = None,
      affectedEntityTypes = None, entityTags = None, evidenceType = None, dateFrom = None,
      dateTo = None, search = None, durationMin = None, durationMax = None,
      hasComments = None, hasGitHubActions = None, hasRootCause = None,
      autoremediado = None, funcionoAutoRemediacion = None\<rparr>"

text \<open>\<open>Array.isArray(v) ? v : [v]\<close>\<close>

fun as_array :: "jsval \<Rightarrow> jsval list" where
  "as_array (JArr xs) = xs"
| "as_array v = [v]"

text \<open>\<open>v === 'true' || v === true\<close> and \<open>v === 'false' || v === false\<close>\<close>

definition is_true :: "jsval \<Rightarrow> bool" where
  "is_true v = (v = JStr ''true'' \<or> v = JBool True)"

definition is_false :: "jsval \<Rightarrow> bool" where
  "is_false v = (v = JStr ''false'' \<or> v = JBool False)"

text \<open>The three-way branch shared by the tri-state fields.\<close>

definition tri_state :: "jsval \<Rightarrow> bool option" where
  "tri_state v = (if is_true v then Some True else if is_false v then Some False else None)"

text \<open>
  \<open>parseFilters(query)\<close>.  \<open>query k\<close> is \<open>query[k]\<close> (\<open>JUndefined\<close> for an absent key);
  \<open>toNumber\<close> is JavaScript's \<open>Number(v)\<close> conversion.
\<close>

definition parseFilters :: "(jsval \<Rightarrow> jsnum) \<Rightarrow> (string \<Rightarrow> jsval) \<Rightarrow> ProblemFilters" where
  "parseFilters toNumber query =
     (let filters = no_filters;
          filters = js_if (truthy (query ''impactLevel''))
            (\<lambda>f. f\<lparr>impactLevel := Some (as_array (query ''impactLevel''))\<rparr>) filters;
          filters = js_if (truthy (query ''severityLevel''))
            (\<lambda>f. f\<lparr>severityLevel := Some (as_array (query ''severityLevel''))\<rparr>) filters;
          filters = js_if (truthy (query ''status''))
            (\<lambda>f. f\<lparr>status := Some (as_array (query ''status''))\<rparr>) filters;
          filters = js_if (truthy (query ''managementZones''))
            (\<lambda>f. f\<lparr>managementZones := Some (as_array (query ''managementZones''))\<rparr>) filters;
          filters = js_if (truthy (query ''affectedEntityTypes''))
            (\<lambda>f. f\<lparr>affectedEntityTypes := Some (as_array (query ''affectedEntityTypes''))\<rparr>)
            filters;
          filters = js_if (truthy (query ''entityTags''))
            (\<lambda>f. f\<lparr>entityTags := Some (as_array (query ''entityTags''))\<rparr>) filters;
          filters = js_if (truthy (query ''evidenceType''))
            (\<lambda>f. f\<lparr>evidenceType := Some (as_array (query ''evidenceType''))\<rparr>) filters;
          filters = js_if (truthy (query ''dateFrom''))
            (\<lambda>f. f\<lparr>dateFrom := Some (query ''dateFrom'')\<rparr>) filters;
          filters = js_if (truthy (query ''dateTo''))
            (\<lambda>f. f\<lparr>dateTo := Some (query ''dateTo'')\<rparr>) filters;
          filters = js_if (truthy (query ''search''))
            (\<lambda>f. f\<lparr>search := Some (query ''search'')\<rparr>) filters;
          filters = js_if (truthy (query ''durationMin''))
            (\<lambda>f. f\<lparr>durationMin := Some (toNumber (query ''durationMin''))\<rparr>) filters;
          filters = js_if (truthy (query ''durationMax''))
            (\<lambda>f. f\<lparr>durationMax := Some (toNumber (query ''durationMax''))\<rparr>) filters;
          filters = js_if (query ''hasComments'' \<noteq> JUndefined)
            (\<lambda>f. f\<lparr>hasComments := Some (is_true (query ''hasComments''))\<rparr>) filters;
          filters = js_if (query ''hasGitHubActions'' \<noteq> JUndefined)
            (\<lambda>f. f\<lparr>hasGitHubActions := Some (is_true (query ''hasGitHubActions''))\<rparr>) filters;
          filters = js_if (query ''hasRootCause'' \<noteq> JUndefined)
            (\<lambda>f. f\<lparr>hasRootCause := Some (tri_state (query ''hasRootCause''))\<rparr>) filters;
          filters = js_if (query ''autoremediado'' \<noteq> JUndefined)
            (\<lambda>f. f\<lparr>autoremediado := Some (tri_state (query ''autoremediado''))\<rparr>) filters;
          filters = js_if (query ''funcionoAutoRemediacion'' \<noteq> JUndefined)
            (\<lambda>f. f\<lparr>funcionoAutoRemediacion :=
                    Some (tri_state (query ''funcionoAutoRemediacion''))\<rparr>) filters
      in filters)"


section \<open>The query builder (\<open>buildFilter\<close>)\<close>

text \<open>
  The store predicate is the JavaScript object the code assembles, key by key.
  \<open>non_empty xs\<close> is \<open>xs && xs.length > 0\<close>; \<open>present v\<close> is the truthiness of an optional
  field.
\<close>

type_synonym mongoFilter = "(string \<times> jsval) list"

definition non_empty :: "jsval list option \<Rightarrow> bool" where
  "non_empty xs = (case xs of None \<Rightarrow> False | Some ys \<Rightarrow> ys \<noteq> [])"

definition present :: "jsval option \<Rightarrow> bool" where
  "present v = (case v of None \<Rightarrow> False | Some w \<Rightarrow> truthy w)"

text \<open>\<open>{ $in: xs }\<close>\<close>

definition in_clause :: "jsval list option \<Rightarrow> jsval" where
  "in_clause xs = JObj [(''$in'', JArr (the xs))]"

text \<open>The object built for \<open>startTime\<close>: \<open>$gte\<close> and \<open>$lte\<close>, each only when supplied.\<close>

definition date_range :: "jsval option \<Rightarrow> jsval option \<Rightarrow> jsval" where
  "date_range lo hi =
     (let r = [];
          r = js_if (present lo) (set_prop ''$gte'' (the lo)) r;
          r = js_if (present hi) (set_prop ''$lte'' (the hi)) r
      in JObj r)"

text \<open>The object built for \<open>duration\<close>.\<close>

definition duration_range :: "jsnum option \<Rightarrow> jsnum option \<Rightarrow> jsval" where
  "duration_range lo hi =
     (let r = [];
          r = js_if (lo \<noteq> None) (set_prop ''$gte'' (JNum (the lo))) r;
          r = js_if (hi \<noteq> None) (set_prop ''$lte'' (JNum (the hi))) r
      in JObj r)"

text \<open>The two clauses of \<open>hasRootCause\<close>.\<close>

definition rootCause_exists :: jsval where
  "rootCause_exists = JObj [(''$ne'', JNull), (''$exists'', JBool True)]"

definition rootCause_missing :: jsval where
  "rootCause_missing =
     JArr [JObj [(''rootCauseEntity'', JNull)],
           JObj [(''rootCauseEntity'', JObj [(''$exists'', JBool False)])]]"

definition buildFilter :: "ProblemFilters \<Rightarrow> mongoFilter" where
  "buildFilter filters =
     (let mongoFilter = [];
          mongoFilter = js_if (non_empty (impactLevel filters))
            (set_prop ''impactLevel'' (in_clause (impactLevel filters))) mongoFilter;
          mongoFilter = js_if (non_empty (severityLevel filters))
            (set_prop ''severityLevel'' (in_clause (severityLevel filters))) mongoFilter;
          mongoFilter = js_if (non_empty (status filters))
            (set_prop ''status'' (in_clause (status filters))) mongoFilter;
          mongoFilter = js_if (non_empty (managementZones filters))
            (set_prop ''managementZones.name'' (in_clause (managementZones filters)))
            mongoFilter;
          mongoFilter = js_if (non_empty (affectedEntityTypes filters))
            (set_prop ''affectedEntities.entityId.type''
               (in_clause (affectedEntityTypes filters)))
            mongoFilter;
          mongoFilter = js_if (non_empty (entityTags filters))
            (set_prop ''entityTags.stringRepresentation'' (in_clause (entityTags filters)))
            mongoFilter;
          mongoFilter = js_if (present (dateFrom filters) \<or> present (dateTo filters))
            (set_prop ''startTime'' (date_range (dateFrom filters) (dateTo filters)))
            mongoFilter;
          mongoFilter = js_if (hasComments filters \<noteq> None)
            (\<lambda>m. if the (hasComments filters)
                  then set_prop ''recentComments.totalCount'' (JObj [(''$gt'', JNum (Fin 0))]) m
                  else set_prop ''recentComments.totalCount'' (JNum (Fin 0)) m)
            mongoFilter;
          mongoFilter = js_if (hasGitHubActions filters = Some True)
            (set_prop ''recentComments.comments.content''
               (JObj [(''$regex'', JStr ''GitHub Actions''), (''$options'', JStr ''i'')]))
            mongoFilter;
          mongoFilter = js_if (non_empty (evidenceType filters))
            (set_prop ''evidenceDetails.details.evidenceType''
               (in_clause (evidenceType filters)))
            mongoFilter;
          mongoFilter = js_if (present (search filters))
            (set_prop ''$text'' (JObj [(''$search'', the (search filters))])) mongoFilter;
          mongoFilter =
            js_if (hasRootCause filters \<noteq> None \<and> hasRootCause filters \<noteq> Some None)
            (\<lambda>m. if the (the (hasRootCause filters))
                  then set_prop ''rootCauseEntity'' rootCause_exists m
                  else set_prop ''$or'' rootCause_missing m)
            mongoFilter;
          mongoFilter = js_if (durationMin filters \<noteq> None \<or> durationMax filters \<noteq> None)
            (set_prop ''duration'' (duration_range (durationMin filters) (durationMax filters)))
            mongoFilter;
          mongoFilter =
            js_if (autoremediado filters \<noteq> None \<and> autoremediado filters \<noteq> Some None)
            (set_prop ''autoremediado'' (JBool (the (the (autoremediado filters)))))
            mongoFilter;
          mongoFilter =
            js_if (funcionoAutoRemediacion filters \<noteq> None
                     \<and> funcionoAutoRemediacion filters \<noteq> Some None)
            (set_prop ''funcionoAutoRemediacion''
               (JBool (the (the (funcionoAutoRemediacion filters)))))
            mongoFilter
      in mongoFilter)"


section \<open>The data model\<close>

text \<open>
  A problem document as the analytics functions read it.  \<open>duration\<close> is \<open>None\<close> when
  the stored field is absent or null; \<open>comments\<close> is \<open>None\<close> when the list is absent (the
  code guards it with \<open>p.recentComments.comments && ...\<close>).  The \<open>id\<close> and the \<open>name\<close>
  of an affected entity are \<open>None\<close> when the document read has no such field: the
  projection of the bulk fetch keeps \<open>affectedEntities.entityId.type\<close> only.
\<close>

record comment =
  content :: string
  author :: string

record recentComments =
  totalCount :: int
  comments :: "comment list option"

record entityId =
  id' :: "string option"
  type' :: string

record affectedEntity =
  name :: "string option"
  entityId :: entityId

record Problem =
  problemId :: string
  status :: string
  impactLevel :: string
  severityLevel :: string
  duration :: "jsnum option"
  affectedEntities :: "affectedEntity list"
  recentComments :: recentComments

text \<open>\<open>problem.duration || 0\<close>: an absent, null, NaN or zero duration reads as 0.\<close>

definition duration_or_0 :: "Problem \<Rightarrow> jsnum" where
  "duration_or_0 problem =
     (case duration problem of
        None \<Rightarrow> Fin 0
      | Some d \<Rightarrow> if d = NaN \<or> d = Fin 0 then Fin 0 else d)"


section \<open>The record repository\<close>

text \<open>
  The collection: its documents, in the store's natural order, and the store's own
  semantics, which the code does not define: when a document satisfies a predicate, how
  a projection cuts a document down, how a sort specification orders documents.
\<close>

record collection =
  docs :: "Problem list"
  matches :: "mongoFilter \<Rightarrow> Problem \<Rightarrow> bool"
  project :: "(string \<times> jsval) list \<Rightarrow> Problem \<Rightarrow> Problem"
  sort_docs :: "(string \<times> jsval) list \<Rightarrow> Problem list \<Rightarrow> Problem list"

text \<open>
  A cursor is the list of documents it will deliver.  \<open>limit(0)\<close> is the store's
  "no limit"; a negative \<open>skip\<close> is rejected by the store.
\<close>

datatype error = BadValue

definition find' :: "collection \<Rightarrow> mongoFilter \<Rightarrow> Problem list" where
  "find' coll mongoFilter = filter (matches coll mongoFilter) (docs coll)"

definition countDocuments :: "collection \<Rightarrow> mongoFilter \<Rightarrow> nat" where
  "countDocuments coll mongoFilter = length (filter (matches coll mongoFilter) (docs coll))"

definition cursor_limit :: "nat \<Rightarrow> 'a list \<Rightarrow> 'a list" where
  "cursor_limit n xs = (if n = 0 then xs else take n xs)"

definition cursor_skip :: "int \<Rightarrow> 'a list \<Rightarrow> error + 'a list" where
  "cursor_skip n xs = (if n < 0 then Inl BadValue else Inr (drop (nat n) xs))"

record PaginatedProblemsResponse =
  problems' :: "Problem list"
  total' :: nat
  page' :: nat
  limit' :: nat
  totalPages' :: jsnum

text \<open>\<open>findAll(filters, page, limit, sortBy, sortOrder)\<close>; \<open>asc\<close> is \<open>sortOrder === 'asc'\<close>.\<close>

definition findAll ::
  "rounding \<Rightarrow> collection \<Rightarrow> ProblemFilters \<Rightarrow> nat \<Rightarrow> nat \<Rightarrow> string \<Rightarrow> bool
     \<Rightarrow> error + PaginatedProblemsResponse" where
  "findAll rnd coll filters page limit sortBy asc =
     (let mongoFilter = buildFilter filters;
          skip = (int page - 1) * int limit;
          sort = [(sortBy, JNum (Fin (if asc then 1 else - 1)))]
      in case cursor_skip skip (sort_docs coll sort (find' coll mongoFilter)) of
           Inl e \<Rightarrow> Inl e
         | Inr c \<Rightarrow>
             Inr \<lparr>problems' = cursor_limit limit c,
                  total' = countDocuments coll mongoFilter,
                  page' = page,
                  limit' = limit,
                  totalPages' =
                    Math_ceil
                      (js_div rnd (Fin (real (countDocuments coll mongoFilter)))
                         (Fin (real limit)))\<rparr>)"

text \<open>The projection of \<open>findAllProblems\<close>.\<close>

definition projection :: "(string \<times> jsval) list" where
  "projection =
     map (\<lambda>k. (k, JNum (Fin 1)))
       [''problemId'', ''displayId'', ''title'', ''impactLevel'', ''severityLevel'',
        ''status'', ''startTime'', ''endTime'', ''duration'', ''rootCauseEntity'',
        ''managementZones.name'', ''affectedEntities.entityId.type'',
        ''evidenceDetails.details.evidenceType'', ''recentComments.totalCount'',
        ''recentComments.comments'']"

text \<open>
  \<open>findAllProblems(filters?, limit?)\<close>.  The limit is a record count; \<open>if (limit)\<close> is
  false for an absent limit and for 0.
\<close>

definition findAllProblems ::
  "collection \<Rightarrow> ProblemFilters option \<Rightarrow> nat option \<Rightarrow> Problem list" where
  "findAllProblems coll filters limit =
     (let mongoFilter = (case filters of Some f \<Rightarrow> buildFilter f | None \<Rightarrow> []);
          query = find' coll mongoFilter;
          query = (if limit \<noteq> None \<and> the limit \<noteq> 0 then cursor_limit (the limit) query
                   else cursor_limit 10000 query)
      in map (project coll projection) query)"

text \<open>
  \<open>findOneAndUpdate(selector, update, { returnDocument: 'after' })\<close>: the first document
  the selector picks is replaced by its update and returned; \<open>None\<close> is \<open>null\<close>.
\<close>

fun findOneAndUpdate ::
  "(Problem \<Rightarrow> bool) \<Rightarrow> (Problem \<Rightarrow> Problem) \<Rightarrow> Problem list \<Rightarrow> Problem list \<times> Problem option" where
  "findOneAndUpdate sel upd [] = ([], None)"
| "findOneAndUpdate sel upd (d # ds) =
     (if sel d then (upd d # ds, Some (upd d))
      else (case findOneAndUpdate sel upd ds of (ds', r) \<Rightarrow> (d # ds', r)))"

text \<open>\<open>$push\<close> appends to the array, creating it when absent; \<open>$inc\<close> adds to the number.\<close>

definition push_comment :: "comment \<Rightarrow> recentComments \<Rightarrow> recentComments" where
  "push_comment c rc =
     rc\<lparr>comments := Some (case comments rc of None \<Rightarrow> [c] | Some cs \<Rightarrow> cs @ [c])\<rparr>"

definition inc_totalCount :: "int \<Rightarrow> recentComments \<Rightarrow> recentComments" where
  "inc_totalCount k rc = rc\<lparr>totalCount := totalCount rc + k\<rparr>"

definition addComment :: "collection \<Rightarrow> string \<Rightarrow> comment \<Rightarrow> collection \<times> Problem option" where
  "addComment coll pid c =
     (case findOneAndUpdate (\<lambda>d. problemId d = pid)
             (\<lambda>d. d\<lparr>recentComments := inc_totalCount 1 (push_comment c (recentComments d))\<rparr>)
             (docs coll) of
        (ds, result) \<Rightarrow> (coll\<lparr>docs := ds\<rparr>, result))"

text \<open>\<open>findById\<close>: \<open>findOne({ problemId })\<close>.\<close>

definition findById :: "collection \<Rightarrow> string \<Rightarrow> Problem option" where
  "findById coll pid = List.find (\<lambda>d. problemId d = pid) (docs coll)"


section \<open>Analytics: shared helpers\<close>

text \<open>Every analytics function starts from \<open>problems\<close>, the list \<open>findAllProblems\<close> returned.\<close>

text \<open>
  \<open>p.recentComments.comments && p.recentComments.comments.some(c => pred(c.content))\<close>
\<close>

definition some_comment :: "(string \<Rightarrow> bool) \<Rightarrow> Problem \<Rightarrow> bool" where
  "some_comment pred p =
     (case comments (recentComments p) of
        None \<Rightarrow> False
      | Some cs \<Rightarrow> list_ex (\<lambda>c. pred (content c)) cs)"

definition mentions_github_actions :: "Problem \<Rightarrow> bool" where
  "mentions_github_actions =
     some_comment (\<lambda>s. str_includes (toLowerCase s) ''github actions'')"

section \<open>Analytics: top entities\<close>

record entityCount =
  name :: "string option"
  type' :: string
  count :: nat

record topEntity =
  name :: "string option"
  type' :: string
  problemCount :: nat

text \<open>
  \<open>entityMap\<close> is a \<open>Map\<close>: keys in insertion order.  The body of the inner \<open>forEach\<close>:
\<close>

definition countEntity ::
  "(string option \<times> entityCount) list \<Rightarrow> affectedEntity
     \<Rightarrow> (string option \<times> entityCount) list" where
  "countEntity entityMap entity =
     (let key = id' (entityId entity) in
      if map_of entityMap key \<noteq> None
      then map (\<lambda>(k, e). if k = key
                         then (k, e\<lparr>entityCount.count := entityCount.count e + 1\<rparr>)
                         else (k, e))
             entityMap
      else entityMap @
             [(key, \<lparr>entityCount.name = affectedEntity.name entity,
                     entityCount.type' = entityId.type' (entityId entity),
                     entityCount.count = 1\<rparr>)])"

definition entityMap_of :: "Problem list \<Rightarrow> (string option \<times> entityCount) list" where
  "entityMap_of problems =
     foldl (\<lambda>entityMap problem. foldl countEntity entityMap (affectedEntities problem))
       [] problems"

text \<open>
  \<open>getTopEntities(limit = 10, filters?)\<close>.  The limit is the number the caller passes
  (\<open>Number(req.query.limit)\<close>), \<open>None\<close> when the argument is left out;
  \<open>sort((a, b) => b.count - a.count)\<close> is a stable sort by descending count.
\<close>

definition getTopEntities :: "jsnum option \<Rightarrow> Problem list \<Rightarrow> topEntity list" where
  "getTopEntities limit problems =
     map (\<lambda>entity. \<lparr>topEntity.name = entityCount.name entity,
                    topEntity.type' = entityCount.type' entity,
                    problemCount = entityCount.count entity\<rparr>)
       (slice0 (case limit of None \<Rightarrow> Fin 10 | Some n \<Rightarrow> n)
          (sort_key (\<lambda>e. - int (entityCount.count e)) (map snd (entityMap_of problems))))"


section \<open>Analytics: remediation funnel\<close>

record stage =
  name :: string
  count :: nat
  percentage :: jsnum

text \<open>\<open>Number(((n / totalProblems) * 100).toFixed(2))\<close>\<close>

definition percent :: "rounding \<Rightarrow> nat \<Rightarrow> nat \<Rightarrow> jsnum" where
  "percent rnd n totalProblems =
     toFixed2 rnd
       (js_mul rnd (js_div rnd (Fin (real n)) (Fin (real totalProblems))) (Fin 100))"

definition mentions_success :: "Problem \<Rightarrow> bool" where
  "mentions_success =
     some_comment (\<lambda>s. str_includes (toLowerCase s) ''success''
                        \<or> str_includes (toLowerCase s) ''completed'')"

definition getRemediationFunnel :: "rounding \<Rightarrow> Problem list \<Rightarrow> stage list" where
  "getRemediationFunnel rnd problems =
     (let totalProblems = length problems;
          problemsWithComments = filter (\<lambda>p. totalCount (recentComments p) > 0) problems;
          problemsWithGitHubActions = filter mentions_github_actions problemsWithComments;
          problemsWithSuccess = filter mentions_success problemsWithGitHubActions;
          closedProblems = filter (\<lambda>p. Problem.status p = ''CLOSED'') problems
      in [\<lparr>stage.name = ''Total Problems'', stage.count = totalProblems,
            percentage = Fin 100\<rparr>,
          \<lparr>stage.name = ''With Comments'', stage.count = length problemsWithComments,
            percentage = percent rnd (length problemsWithComments) totalProblems\<rparr>,
          \<lparr>stage.name = ''GitHub Actions Initiated'',
            stage.count = length problemsWithGitHubActions,
            percentage = percent rnd (length problemsWithGitHubActions) totalProblems\<rparr>,
          \<lparr>stage.name = ''Remediation Successful'', stage.count = length problemsWithSuccess,
            percentage = percent rnd (length problemsWithSuccess) totalProblems\<rparr>,
          \<lparr>stage.name = ''Closed'', stage.count = length closedProblems,
            percentage = percent rnd (length closedProblems) totalProblems\<rparr>])"


section \<open>Analytics: KPIs\<close>

record DashboardKPIs =
  totalProblems :: nat
  openProblems :: nat
  closedProblems :: nat
  totalDuration :: jsnum
  avgResolutionTime :: jsnum
  problemsWithComments :: nat
  githubActionProblems :: nat
  criticalProblems :: nat

text \<open>
  The body of the \<open>forEach\<close> of \<open>getKPIs\<close>, on the pair of \<open>totalDuration\<close> and
  \<open>resolutionTimes\<close>.
\<close>

definition addDuration ::
  "rounding \<Rightarrow> jsnum \<times> jsnum list \<Rightarrow> Problem \<Rightarrow> jsnum \<times> jsnum list" where
  "addDuration rnd acc problem =
     (case acc of (sumDuration, resolutionTimes) \<Rightarrow>
        let d = duration_or_0 problem
        in (js_add rnd sumDuration d,
            if Problem.status problem = ''CLOSED'' then resolutionTimes @ [d]
            else resolutionTimes))"

definition getKPIs :: "rounding \<Rightarrow> Problem list \<Rightarrow> DashboardKPIs" where
  "getKPIs rnd problems =
     (case foldl (addDuration rnd) (Fin 0, []) problems of (sumDuration, resolutionTimes) \<Rightarrow>
        \<lparr>totalProblems = length problems,
         openProblems = length (filter (\<lambda>p. Problem.status p = ''OPEN'') problems),
         closedProblems = length (filter (\<lambda>p. Problem.status p = ''CLOSED'') problems),
         totalDuration = sumDuration,
         avgResolutionTime =
           (if length resolutionTimes > 0
            then Math_round
                   (js_div rnd (foldl (js_add rnd) (Fin 0) resolutionTimes)
                      (Fin (real (length resolutionTimes))))
            else Fin 0),
         problemsWithComments =
           length (filter (\<lambda>p. totalCount (recentComments p) > 0) problems),
         githubActionProblems = length (filter mentions_github_actions problems),
         criticalProblems =
           length (filter (\<lambda>p. Problem.severityLevel p = ''AVAILABILITY''
                                 \<or> Problem.severityLevel p = ''ERROR'') problems)\<rparr>)"


section \<open>Analytics: duration distribution\<close>

record categories =
  less_than_5 :: nat
  from_5_to_10 :: nat
  from_10_to_30 :: nat
  from_30_to_180 :: nat
  more_than_180 :: nat

text \<open>The body of the \<open>forEach\<close> of \<open>getDurationDistribution\<close>.\<close>

definition countDuration :: "categories \<Rightarrow> Problem \<Rightarrow> categories" where
  "countDuration cats problem =
     (let d = duration_or_0 problem in
      if js_lt d (Fin 5) then cats\<lparr>less_than_5 := less_than_5 cats + 1\<rparr>
      else if js_lt d (Fin 10) then cats\<lparr>from_5_to_10 := from_5_to_10 cats + 1\<rparr>
      else if js_lt d (Fin 30) then cats\<lparr>from_10_to_30 := from_10_to_30 cats + 1\<rparr>
      else if js_lt d (Fin 180) then cats\<lparr>from_30_to_180 := from_30_to_180 cats + 1\<rparr>
      else cats\<lparr>more_than_180 := more_than_180 cats + 1\<rparr>)"

definition getDurationDistribution :: "Problem list \<Rightarrow> categories" where
  "getDurationDistribution problems =
     foldl countDuration
       \<lparr>less_than_5 = 0, from_5_to_10 = 0, from_10_to_30 = 0, from_30_to_180 = 0,
        more_than_180 = 0\<rparr>
       problems"

definition categories_sum :: "categories \<Rightarrow> nat" where
  "categories_sum cats =
     less_than_5 cats + from_5_to_10 cats + from_10_to_30 cats + from_30_to_180 cats
       + more_than_180 cats"


section \<open>Notions the properties are stated with\<close>

text \<open>A record counts as closed when its status is \<open>CLOSED\<close>.\<close>

definition is_closed :: "Problem \<Rightarrow> bool" where
  "is_closed p = (Problem.status p = ''CLOSED'')"

text \<open>
  The mean of the stored duration over the closed records, as doubles give it: the
  durations added from 0 in the order of the records, the sum divided by their number.
\<close>

definition mean_closed_duration :: "rounding \<Rightarrow> Problem list \<Rightarrow> jsnum" where
  "mean_closed_duration rnd ps =
     js_div rnd (foldl (js_add rnd) (Fin 0) (map duration_or_0 (filter is_closed ps)))
       (Fin (real (length (filter is_closed ps))))"

text \<open>\<open>n\<close> is an integer nearest to \<open>x\<close>.\<close>

definition nearest_integer :: "real \<Rightarrow> int \<Rightarrow> bool" where
  "nearest_integer x n = (\<bar>real_of_int n - x\<bar> \<le> 1 / 2)"

text \<open>The five stage counts of the funnel, in order.\<close>

definition funnel_counts :: "rounding \<Rightarrow> Problem list \<Rightarrow> nat list" where
  "funnel_counts rnd ps = map stage.count (getRemediationFunnel rnd ps)"

text \<open>The double \<open>(n / t) * 100\<close>, for a total \<open>t\<close> that is not 0.\<close>

definition ratio_times_100 :: "rounding \<Rightarrow> nat \<Rightarrow> nat \<Rightarrow> jsnum" where
  "ratio_times_100 rnd n t = js_mul rnd (rnd (real n / real t)) (Fin 100)"

text \<open>The cap a bulk fetch runs under: the supplied limit, or 10000.\<close>

definition bulk_cap :: "nat option \<Rightarrow> nat" where
  "bulk_cap limit = (case limit of None \<Rightarrow> 10000 | Some n \<Rightarrow> if n = 0 then 10000 else n)"

text \<open>The comments of a record, an absent list read as empty.\<close>

definition comment_list :: "recentComments \<Rightarrow> comment list" where
  "comment_list rc = (case comments rc of None \<Rightarrow> [] | Some cs \<Rightarrow> cs)"

text \<open>The record with one more comment and a count one higher.\<close>

definition appended :: "comment \<Rightarrow> Problem \<Rightarrow> Problem" where
  "appended c p =
     p\<lparr>recentComments :=
         \<lparr>totalCount = totalCount (recentComments p) + 1,
          comments = Some (comment_list (recentComments p) @ [c])\<rparr>\<rparr>"


text \<open>The key an affected entity is counted under, and all entity entries of a record set.\<close>

definition entity_key :: "affectedEntity \<Rightarrow> string option" where
  "entity_key e = id' (entityId e)"

definition all_entities :: "Problem list \<Rightarrow> affectedEntity list" where
  "all_entities ps = concat (map affectedEntities ps)"

text \<open>How often an id occurs in the lists of a record set, and in how many records.\<close>

definition occurrences :: "string option \<Rightarrow> Problem list \<Rightarrow> nat" where
  "occurrences k ps = length (filter (\<lambda>e. entity_key e = k) (all_entities ps))"

definition records_with :: "string option \<Rightarrow> Problem list \<Rightarrow> nat" where
  "records_with k ps =
     length (filter (\<lambda>p. k \<in> set (map entity_key (affectedEntities p))) ps)"

text \<open>The distinct elements of a list, in the order of their first appearance.\<close>

fun first_seen :: "'a list \<Rightarrow> 'a list" where
  "first_seen [] = []"
| "first_seen (x # xs) = x # filter (\<lambda>y. y \<noteq> x) (first_seen xs)"

text \<open>
  The entities grouped by id: one entry per distinct id, in the order of first
  appearance, with the name and type of the first entity that carries the id and the
  number of entities that carry it.
\<close>

fun tally :: "affectedEntity list \<Rightarrow> (string option \<times> entityCount) list" where
  "tally [] = []"
| "tally (e # es) =
     (entity_key e,
      \<lparr>entityCount.name = affectedEntity.name e,
       entityCount.type' = entityId.type' (entityId e),
       entityCount.count = Suc (length (filter (\<lambda>x. entity_key x = entity_key e) es))\<rparr>)
     # filter (\<lambda>(k, c). k \<noteq> entity_key e) (tally es)"

text \<open>An entity map after the entities \<open>es\<close> have been counted into its entries.\<close>

definition add_counts ::
  "affectedEntity list \<Rightarrow> (string option \<times> entityCount) list
     \<Rightarrow> (string option \<times> entityCount) list" where
  "add_counts es m =
     map (\<lambda>(k, c). (k, c\<lparr>entityCount.count :=
            entityCount.count c + length (filter (\<lambda>x. entity_key x = k) es)\<rparr>)) m"

text \<open>The entry reported for a group.\<close>

definition top_entry :: "entityCount \<Rightarrow> topEntity" where
  "top_entry c =
     \<lparr>topEntity.name = entityCount.name c, topEntity.type' = entityCount.type' c,
      problemCount = entityCount.count c\<rparr>"

text \<open>All groups, sorted by descending count, groups of equal count in their order.\<close>

definition ranking :: "Problem list \<Rightarrow> topEntity list" where
  "ranking ps =
     map top_entry
       (sort_key (\<lambda>c. - int (entityCount.count c)) (map snd (tally (all_entities ps))))"

text \<open>The limit in force: the one supplied, or 10.\<close>

definition limit_or_10 :: "jsnum option \<Rightarrow> jsnum" where
  "limit_or_10 limit = (case limit of None \<Rightarrow> Fin 10 | Some n \<Rightarrow> n)"


section \<open>Example data\<close>

text \<open>
  The rounding that leaves every result as it is.  It is the rounding of doubles
  wherever the exact result is a double, as it is in all examples below.
\<close>

definition exact :: rounding where
  "exact x = Fin x"

definition mk_problem ::
  "string \<Rightarrow> string \<Rightarrow> string \<Rightarrow> real option \<Rightarrow> string list \<Rightarrow> Problem" where
  "mk_problem pid st sev d cs =
     \<lparr>problemId = pid, status = st, impactLevel = ''SERVICES'', severityLevel = sev,
      duration = map_option Fin d, affectedEntities = [],
      recentComments =
        \<lparr>totalCount = int (length cs),
         comments = Some (map (\<lambda>s. \<lparr>content = s, author = ''ops''\<rparr>) cs)\<rparr>\<rparr>"

text \<open>The three records of the specification's scenario.\<close>

definition scenario :: "Problem list" where
  "scenario =
     [mk_problem ''P-1'' ''OPEN'' ''AVAILABILITY'' (Some 4) [],
      mk_problem ''P-2'' ''CLOSED'' ''ERROR'' (Some 45) [''GitHub Actions deployment success''],
      mk_problem ''P-3'' ''CLOSED'' ''PERFORMANCE'' (Some 200) []]"

definition closed_only :: "Problem list" where
  "closed_only = [mk_problem ''P-3'' ''CLOSED'' ''PERFORMANCE'' (Some 200) []]"

definition remediated_open :: "Problem list" where
  "remediated_open =
     [mk_problem ''P-4'' ''OPEN'' ''ERROR'' (Some 45) [''GitHub Actions deployment success'']]"

text \<open>Four records: the scenario and one more closed record.\<close>

definition four_records :: "Problem list" where
  "four_records = scenario @ closed_only"

text \<open>A \<open>Number\<close> conversion for queries that carry no number.\<close>

definition no_number :: "jsval \<Rightarrow> jsnum" where
  "no_number v = NaN"

text \<open>A query object with a single key.\<close>

definition only :: "string \<Rightarrow> jsval \<Rightarrow> string \<Rightarrow> jsval" where
  "only k v = (\<lambda>_. JUndefined)(k := v)"

text \<open>A store over the scenario that understands the \<open>status\<close> clause only.\<close>

definition status_store :: collection where
  "status_store =
     \<lparr>docs = scenario,
      matches = (\<lambda>mongoFilter p.
         case map_of mongoFilter ''status'' of
           Some (JObj [(k, JArr xs)]) \<Rightarrow> JStr (Problem.status p) \<in> set xs
         | _ \<Rightarrow> True),
      project = (\<lambda>fields p. p),
      sort_docs = (\<lambda>spec ps. ps)\<rparr>"

definition closed_filter :: ProblemFilters where
  "closed_filter = no_filters\<lparr>ProblemFilters.status := Some [JStr ''CLOSED'']\<rparr>"

definition new_comment :: comment where
  "new_comment = \<lparr>content = ''restarted the service'', author = ''Anonymous''\<rparr>"


definition host :: affectedEntity where
  "host =
     \<lparr>affectedEntity.name = Some ''web-01'',
      entityId = \<lparr>id' = Some ''HOST-1'', type' = ''HOST''\<rparr>\<rparr>"

definition service :: affectedEntity where
  "service =
     \<lparr>affectedEntity.name = Some ''checkout'',
      entityId = \<lparr>id' = Some ''SERVICE-7'', type' = ''SERVICE''\<rparr>\<rparr>"

text \<open>Two entities as a projection to \<open>entityId.type\<close> leaves them: no id, no name.\<close>

definition bare_host :: affectedEntity where
  "bare_host = \<lparr>affectedEntity.name = None, entityId = \<lparr>id' = None, type' = ''HOST''\<rparr>\<rparr>"

definition bare_service :: affectedEntity where
  "bare_service =
     \<lparr>affectedEntity.name = None, entityId = \<lparr>id' = None, type' = ''SERVICE''\<rparr>\<rparr>"

definition bare_records :: "Problem list" where
  "bare_records =
     [(mk_problem ''P-8'' ''OPEN'' ''ERROR'' (Some 12) [])
        \<lparr>affectedEntities := [bare_host, bare_service]\<rparr>]"

text \<open>One record that lists the same entity twice.\<close>

definition repeated_entity :: "Problem list" where
  "repeated_entity =
     [(mk_problem ''P-7'' ''OPEN'' ''ERROR'' (Some 12) [])\<lparr>affectedEntities := [host, host]\<rparr>]"

definition two_records :: "Problem list" where
  "two_records =
     [(mk_problem ''P-8'' ''OPEN'' ''ERROR'' (Some 12) [])
        \<lparr>affectedEntities := [host, service]\<rparr>,
      (mk_problem ''P-9'' ''OPEN'' ''ERROR'' (Some 12) [])
        \<lparr>affectedEntities := [service, service]\<rparr>]"


section \<open>Duration distribution\<close>

lemma categories_sum_countDuration:
  "categories_sum (countDuration cats p) = Suc (categories_sum cats)"
  by (simp add: countDuration_def categories_sum_def Let_def)

lemma categories_sum_foldl:
  "categories_sum (foldl countDuration cats ps) = categories_sum cats + length ps"
  by (induction ps arbitrary: cats) (simp_all add: categories_sum_countDuration)

text \<open>
  C6: whatever the durations are (negative, zero, fractional or absent), the five bucket
  counts of \<open>getDurationDistribution\<close> add up to the number of records; a duration of
  exactly 5 is counted in \<open>5_to_10\<close>, 29.999 in \<open>10_to_30\<close> and exactly 180 in
  \<open>more_than_180\<close>.
\<close>

theorem getDurationDistribution_sum_and_boundaries:
  "categories_sum (getDurationDistribution ps) = length ps
   \<and> getDurationDistribution [p\<lparr>duration := Some (Fin 5)\<rparr>]
       = \<lparr>less_than_5 = 0, from_5_to_10 = 1, from_10_to_30 = 0, from_30_to_180 = 0,
          more_than_180 = 0\<rparr>
   \<and> getDurationDistribution [p\<lparr>duration := Some (Fin 29.999)\<rparr>]
       = \<lparr>less_than_5 = 0, from_5_to_10 = 0, from_10_to_30 = 1, from_30_to_180 = 0,
          more_than_180 = 0\<rparr>
   \<and> getDurationDistribution [p\<lparr>duration := Some (Fin 180)\<rparr>]
       = \<lparr>less_than_5 = 0, from_5_to_10 = 0, from_10_to_30 = 0, from_30_to_180 = 0,
          more_than_180 = 1\<rparr>"
proof -
  have "categories_sum (getDurationDistribution ps) = length ps"
    by (simp add: getDurationDistribution_def categories_sum_foldl)
       (simp add: categories_sum_def)
  moreover have "getDurationDistribution [p\<lparr>duration := Some (Fin 5)\<rparr>]
       = \<lparr>less_than_5 = 0, from_5_to_10 = 1, from_10_to_30 = 0, from_30_to_180 = 0,
          more_than_180 = 0\<rparr>"
    by (simp add: getDurationDistribution_def countDuration_def duration_or_0_def)
  moreover have "getDurationDistribution [p\<lparr>duration := Some (Fin 29.999)\<rparr>]
       = \<lparr>less_than_5 = 0, from_5_to_10 = 0, from_10_to_30 = 1, from_30_to_180 = 0,
          more_than_180 = 0\<rparr>"
    by (simp add: getDurationDistribution_def countDuration_def duration_or_0_def)
  moreover have "getDurationDistribution [p\<lparr>duration := Some (Fin 180)\<rparr>]
       = \<lparr>less_than_5 = 0, from_5_to_10 = 0, from_10_to_30 = 0, from_30_to_180 = 0,
          more_than_180 = 1\<rparr>"
    by (simp add: getDurationDistribution_def countDuration_def duration_or_0_def)
  ultimately show ?thesis
    by blast
qed

theorem getDurationDistribution_sum_and_boundaries_witness:
  "categories_sum (getDurationDistribution scenario) = 3
   \<and> getDurationDistribution scenario
       = \<lparr>less_than_5 = 1, from_5_to_10 = 0, from_10_to_30 = 0, from_30_to_180 = 1,
          more_than_180 = 1\<rparr>
   \<and> less_than_5 (getDurationDistribution
         [mk_problem ''P-5'' ''OPEN'' ''ERROR'' (Some (- 3)) [],
          mk_problem ''P-6'' ''OPEN'' ''ERROR'' None []]) = 2"
  using getDurationDistribution_sum_and_boundaries [of scenario]
  by (simp add: getDurationDistribution_def countDuration_def duration_or_0_def scenario_def
        mk_problem_def)


section \<open>KPIs: the average resolution time\<close>

lemma is_closed_eq: "is_closed = (\<lambda>p. Problem.status p = ''CLOSED'')"
  by (simp add: fun_eq_iff is_closed_def)

lemma foldl_addDuration:
  "foldl (addDuration rnd) (t, rs) ps =
     (foldl (js_add rnd) t (map duration_or_0 ps),
      rs @ map duration_or_0 (filter is_closed ps))"
  by (induction ps arbitrary: t rs) (simp_all add: addDuration_def is_closed_def Let_def)

lemma floor_half_nearest: "nearest_integer x \<lfloor>x + 1 / 2\<rfloor>"
  unfolding nearest_integer_def by linarith

text \<open>
  C5: \<open>getKPIs\<close> returns as \<open>avgResolutionTime\<close> the mean of the stored duration over the
  \<open>CLOSED\<close> records only (the mean doubles give: the durations of the closed records
  added in order, divided by their number), rounded by \<open>Math.round\<close>, which takes a
  finite number to a nearest integer; and it returns exactly 0, not NaN, when no record
  is closed.
\<close>

theorem getKPIs_avgResolutionTime:
  "avgResolutionTime (getKPIs rnd ps) =
     (if filter is_closed ps = [] then Fin 0
      else Math_round (mean_closed_duration rnd ps))
   \<and> (filter is_closed ps = [] \<longrightarrow> avgResolutionTime (getKPIs rnd ps) \<noteq> NaN)
   \<and> Math_round (Fin x) = Fin (real_of_int \<lfloor>x + 1 / 2\<rfloor>)
   \<and> nearest_integer x \<lfloor>x + 1 / 2\<rfloor>"
proof -
  have avg: "avgResolutionTime (getKPIs rnd ps) =
     (if filter is_closed ps = [] then Fin 0
      else Math_round (mean_closed_duration rnd ps))"
    by (simp add: getKPIs_def foldl_addDuration mean_closed_duration_def is_closed_eq)
  then have "filter is_closed ps = [] \<longrightarrow> avgResolutionTime (getKPIs rnd ps) \<noteq> NaN"
    by simp
  with avg floor_half_nearest show ?thesis
    by simp
qed

lemma scenario_closed_mean: "mean_closed_duration exact scenario = Fin (245 / 2)"
  by (simp add: mean_closed_duration_def scenario_def mk_problem_def is_closed_def
        duration_or_0_def exact_def)

theorem getKPIs_avgResolutionTime_witness:
  "avgResolutionTime (getKPIs exact scenario) = Fin 123
   \<and> filter is_closed [] = []
   \<and> avgResolutionTime (getKPIs exact []) = Fin 0
   \<and> nearest_integer (245 / 2) 123"
  using getKPIs_avgResolutionTime [of exact scenario "245 / 2"]
    getKPIs_avgResolutionTime [of exact "[]" 0]
  by (simp add: scenario_closed_mean)
     (simp add: scenario_def mk_problem_def is_closed_def)


section \<open>The remediation funnel\<close>

lemma lower_comment:
  "toLowerCase ''GitHub Actions deployment success'' = ''github actions deployment success''"
  by code_simp

lemma funnel_counts_eq:
  "funnel_counts rnd ps =
     [length ps,
      length (filter (\<lambda>p. totalCount (recentComments p) > 0) ps),
      length (filter mentions_github_actions
                (filter (\<lambda>p. totalCount (recentComments p) > 0) ps)),
      length (filter mentions_success (filter mentions_github_actions
                (filter (\<lambda>p. totalCount (recentComments p) > 0) ps))),
      length (filter is_closed ps)]"
  by (simp add: funnel_counts_def getRemediationFunnel_def Let_def is_closed_eq)

lemma funnel_counts_closed_only: "funnel_counts rnd closed_only = [1, 0, 0, 0, 1]"
  by (simp add: funnel_counts_eq closed_only_def mk_problem_def is_closed_def)

lemma funnel_counts_remediated_open:
  "funnel_counts rnd remediated_open = [1, 1, 1, 1, 0]"
  by (simp add: funnel_counts_eq remediated_open_def mk_problem_def is_closed_def
        mentions_github_actions_def mentions_success_def some_comment_def lower_comment)

lemma funnel_counts_scenario: "funnel_counts rnd scenario = [3, 1, 1, 1, 2]"
  by (simp add: funnel_counts_eq scenario_def mk_problem_def is_closed_def
        mentions_github_actions_def mentions_success_def some_comment_def lower_comment)

text \<open>
  C4: for every record set the stage counts of the funnel satisfy
  total \<open>\<ge>\<close> with-comments \<open>\<ge>\<close> with-GitHub-Actions \<open>\<ge>\<close> with-success; the closed stage
  is the count of the \<open>CLOSED\<close> records of the whole set (so at most the total), and it
  is tied to none of the three filtered stages: on some record set it exceeds the
  with-comments stage, on another it is below the with-success stage.
\<close>

theorem getRemediationFunnel_monotone:
  "(\<exists>t c g s cl. funnel_counts rnd ps = [t, c, g, s, cl]
       \<and> t = length ps \<and> c \<le> t \<and> g \<le> c \<and> s \<le> g
       \<and> cl = length (filter is_closed ps) \<and> cl \<le> t)
   \<and> (\<exists>qs. funnel_counts rnd qs ! 4 > funnel_counts rnd qs ! 1)
   \<and> (\<exists>qs. funnel_counts rnd qs ! 4 < funnel_counts rnd qs ! 3)"
proof -
  have "\<exists>t c g s cl. funnel_counts rnd ps = [t, c, g, s, cl]
       \<and> t = length ps \<and> c \<le> t \<and> g \<le> c \<and> s \<le> g
       \<and> cl = length (filter is_closed ps) \<and> cl \<le> t"
    by (simp add: funnel_counts_eq del: filter_filter)
  moreover have "funnel_counts rnd closed_only ! 4 > funnel_counts rnd closed_only ! 1"
    by (simp add: funnel_counts_closed_only)
  moreover have
    "funnel_counts rnd remediated_open ! 4 < funnel_counts rnd remediated_open ! 3"
    by (simp add: funnel_counts_remediated_open)
  ultimately show ?thesis
    by blast
qed

theorem getRemediationFunnel_monotone_witness:
  "funnel_counts exact scenario = [3, 1, 1, 1, 2] \<and> length (filter is_closed scenario) = 2"
  using getRemediationFunnel_monotone [of exact scenario]
  by (simp add: funnel_counts_scenario)

lemma round_hundredths: "\<bar>real_of_int \<lfloor>y * 100 + 1 / 2\<rfloor> / 100 - y\<bar> \<le> 1 / 200"
proof -
  define n where "n = real_of_int \<lfloor>y * 100 + 1 / 2\<rfloor>"
  have "n \<le> y * 100 + 1 / 2"
    unfolding n_def by (rule of_int_floor_le)
  moreover have "y * 100 + 1 / 2 < n + 1"
    unfolding n_def using floor_correct [of "y * 100 + 1 / 2"] by simp
  ultimately have "\<bar>n / 100 - y\<bar> \<le> 1 / 200"
    by linarith
  then show ?thesis
    by (simp add: n_def)
qed

lemma round2_close: "\<bar>round2 x - x\<bar> \<le> 1 / 200"
proof (cases "0 \<le> x")
  case True
  then show ?thesis
    using round_hundredths [of x] by (simp add: round2_def)
next
  case False
  define m where "m = real_of_int \<lfloor>(- x) * 100 + 1 / 2\<rfloor> / 100"
  have "\<bar>m - (- x)\<bar> \<le> 1 / 200"
    unfolding m_def by (rule round_hundredths)
  then have "\<bar>(- m) - x\<bar> \<le> 1 / 200"
    by linarith
  moreover have "round2 x = - m"
    using False by (simp add: round2_def m_def)
  ultimately show ?thesis
    by simp
qed

lemma percent_eq:
  "percent rnd n t =
     (if t = 0 then (if n = 0 then NaN else PosInf)
      else toFixed2 rnd (ratio_times_100 rnd n t))"
  by (simp add: percent_def ratio_times_100_def)

lemma funnel_counts_four: "funnel_counts rnd four_records = [4, 1, 1, 1, 3]"
  by (simp add: funnel_counts_eq four_records_def scenario_def closed_only_def mk_problem_def
        is_closed_def mentions_github_actions_def mentions_success_def some_comment_def
        lower_comment)

text \<open>
  C8, as the code has it: every stage reports its count; the first stage reports the
  constant percentage 100, and each of the four other stages reports its count as a
  percentage of the grand total, the double \<open>(count / total) * 100\<close> rounded to 2
  decimals by \<open>toFixed(2)\<close>.  When the record set is empty the percentage of each of
  these four stages is NaN (0 divided by 0), and the first stage still reports 100.
\<close>

theorem getRemediationFunnel_percentages:
  "map percentage (getRemediationFunnel rnd ps) =
     Fin 100 #
     map (\<lambda>n. if ps = [] then NaN else toFixed2 rnd (ratio_times_100 rnd n (length ps)))
       (tl (funnel_counts rnd ps))
   \<and> (\<bar>x\<bar> < 10 ^ 21 \<longrightarrow> toFixed2 rnd (Fin x) = rnd (round2 x))
   \<and> \<bar>round2 x - x\<bar> \<le> 1 / 200
   \<and> round2 x * 100 = real_of_int \<lfloor>round2 x * 100\<rfloor>"
proof -
  have "map percentage (getRemediationFunnel rnd ps) =
     Fin 100 #
     map (\<lambda>n. if ps = [] then NaN else toFixed2 rnd (ratio_times_100 rnd n (length ps)))
       (tl (funnel_counts rnd ps))"
    by (simp add: funnel_counts_def getRemediationFunnel_def Let_def percent_eq)
  moreover have "round2 x * 100 = real_of_int \<lfloor>round2 x * 100\<rfloor>"
    by (simp add: round2_def)
  moreover have "\<bar>x\<bar> < 10 ^ 21 \<longrightarrow> toFixed2 rnd (Fin x) = rnd (round2 x)"
    by simp
  ultimately show ?thesis
    using round2_close by blast
qed

theorem getRemediationFunnel_percentages_witness:
  "map percentage (getRemediationFunnel exact []) = [Fin 100, NaN, NaN, NaN, NaN]
   \<and> map percentage (getRemediationFunnel exact four_records)
       = [Fin 100, Fin 25, Fin 25, Fin 25, Fin 75]
   \<and> \<bar>25 :: real\<bar> < 10 ^ 21 \<and> toFixed2 exact (Fin 25) = Fin 25"
  using getRemediationFunnel_percentages [of exact "[]" 25]
    getRemediationFunnel_percentages [of exact four_records 25]
  by (simp add: funnel_counts_four)
     (simp add: funnel_counts_def getRemediationFunnel_def ratio_times_100_def round2_def
        exact_def four_records_def scenario_def closed_only_def)

text \<open>
  The claim as stated fails on the empty record set: not every stage's percentage is NaN
  there, the first stage's is 100.
\<close>

theorem getRemediationFunnel_first_stage_not_NaN:
  "stage.count (hd (getRemediationFunnel exact [])) = 0
   \<and> percentage (hd (getRemediationFunnel exact [])) = Fin 100
   \<and> percentage (hd (getRemediationFunnel exact [])) \<noteq> NaN"
  by (simp add: getRemediationFunnel_def)


section \<open>The filter normalizer and the query builder\<close>

lemma js_if_True: "js_if True f x = f x"
  by (simp add: js_if_def)

lemma js_if_False: "js_if False f x = x"
  by (simp add: js_if_def)

text \<open>A conditional update leaves alone what its update leaves alone.\<close>

lemma js_if_frame: "(\<And>y. sel (f y) = sel y) \<Longrightarrow> sel (js_if c f x) = sel x"
  by (simp add: js_if_def)

lemma parseFilters_hasComments:
  "hasComments (parseFilters toNumber query) =
     (if query ''hasComments'' = JUndefined then None
      else Some (is_true (query ''hasComments'')))"
  by (simp add: parseFilters_def Let_def js_if_frame [where sel = hasComments] js_if_True
        js_if_False no_filters_def)

lemma parseFilters_hasRootCause:
  "hasRootCause (parseFilters toNumber query) =
     (if query ''hasRootCause'' = JUndefined then None
      else Some (tri_state (query ''hasRootCause'')))"
  by (simp add: parseFilters_def Let_def js_if_frame [where sel = hasRootCause] js_if_True
        js_if_False no_filters_def)

text \<open>
  C2, as the code has it: when the \<open>hasComments\<close> field of the raw query is present, the
  normalized \<open>hasComments\<close> is always set: to true exactly when the raw value is the
  string \<open>"true"\<close> or the boolean true, and to false for any other present raw value (the
  string \<open>"false"\<close>, for example).
\<close>

theorem parseFilters_hasComments_present:
  "query ''hasComments'' \<noteq> JUndefined \<Longrightarrow>
     hasComments (parseFilters toNumber query)
       = Some (query ''hasComments'' = JStr ''true'' \<or> query ''hasComments'' = JBool True)"
  by (simp add: parseFilters_hasComments is_true_def)

theorem parseFilters_hasComments_present_witness:
  "only ''hasComments'' (JStr ''false'') ''hasComments'' \<noteq> JUndefined
   \<and> hasComments (parseFilters no_number (only ''hasComments'' (JStr ''false''))) = Some False"
  using parseFilters_hasComments_present [of "only ''hasComments'' (JStr ''false'')" no_number]
  by (simp add: only_def)

text \<open>
  The claim as stated fails on the raw string \<open>"false"\<close>: the field is not left unset, it
  is set to false.
\<close>

theorem parseFilters_hasComments_false_is_set:
  "hasComments (parseFilters no_number (only ''hasComments'' (JStr ''false''))) = Some False
   \<and> hasComments (parseFilters no_number (only ''hasComments'' (JStr ''false''))) \<noteq> None"
  by (simp add: parseFilters_hasComments only_def is_true_def)

lemma map_of_set_prop:
  "map_of (set_prop k v ps) k' = (if k' = k then Some v else map_of ps k')"
  by (induction ps) auto

lemma js_if_map_of_frame:
  "(\<And>m. map_of (f m) k = map_of m k) \<Longrightarrow> map_of (js_if c f ps) k = map_of ps k"
  by (simp add: js_if_def)

lemma buildFilter_or:
  "map_of (buildFilter filters) ''$or'' =
     (if hasRootCause filters = Some (Some False) then Some rootCause_missing else None)"
proof (cases "hasRootCause filters")
  case None
  then show ?thesis
    by (simp add: buildFilter_def Let_def js_if_False js_if_map_of_frame map_of_set_prop)
next
  case (Some t)
  show ?thesis
  proof (cases t)
    case None
    with Some show ?thesis
      by (simp add: buildFilter_def Let_def js_if_False js_if_map_of_frame map_of_set_prop)
  next
    case (Some b)
    with \<open>hasRootCause filters = Some t\<close> show ?thesis
      by (cases b)
         (simp_all add: buildFilter_def Let_def js_if_True js_if_map_of_frame map_of_set_prop)
  qed
qed

lemma buildFilter_rootCauseEntity:
  "map_of (buildFilter filters) ''rootCauseEntity'' =
     (if hasRootCause filters = Some (Some True) then Some rootCause_exists else None)"
proof (cases "hasRootCause filters")
  case None
  then show ?thesis
    by (simp add: buildFilter_def Let_def js_if_False js_if_map_of_frame map_of_set_prop)
next
  case (Some t)
  show ?thesis
  proof (cases t)
    case None
    with Some show ?thesis
      by (simp add: buildFilter_def Let_def js_if_False js_if_map_of_frame map_of_set_prop)
  next
    case (Some b)
    with \<open>hasRootCause filters = Some t\<close> show ?thesis
      by (cases b)
         (simp_all add: buildFilter_def Let_def js_if_True js_if_map_of_frame map_of_set_prop)
  qed
qed

text \<open>
  C7: whatever the rest of the query is, normalizing the raw string \<open>"false"\<close> for
  \<open>hasRootCause\<close> and building the predicate gives the explicit negative clause
  (\<open>rootCauseEntity\<close> is null, or the field does not exist) under \<open>$or\<close>.  A raw value
  \<open>v\<close> that is neither a true nor a false form, the omitted key (\<open>undefined\<close>) included,
  normalizes to unset or to the null marker, and the predicate built from it has no
  \<open>$or\<close> and no \<open>rootCauseEntity\<close> clause.  The two predicates differ.
\<close>

theorem hasRootCause_false_distinct_from_unset:
  assumes "tri_state v = None"
  shows "hasRootCause (parseFilters toNumber (query(''hasRootCause'' := JStr ''false'')))
           = Some (Some False)
    \<and> map_of (buildFilter (parseFilters toNumber (query(''hasRootCause'' := JStr ''false''))))
          ''$or''
        = Some (JArr [JObj [(''rootCauseEntity'', JNull)],
                      JObj [(''rootCauseEntity'', JObj [(''$exists'', JBool False)])]])
    \<and> hasRootCause (parseFilters toNumber (query(''hasRootCause'' := v)))
        = (if v = JUndefined then None else Some None)
    \<and> map_of (buildFilter (parseFilters toNumber (query(''hasRootCause'' := v)))) ''$or'' = None
    \<and> map_of (buildFilter (parseFilters toNumber (query(''hasRootCause'' := v))))
          ''rootCauseEntity'' = None
    \<and> buildFilter (parseFilters toNumber (query(''hasRootCause'' := JStr ''false'')))
        \<noteq> buildFilter (parseFilters toNumber (query(''hasRootCause'' := v)))"
proof -
  let ?no = "parseFilters toNumber (query(''hasRootCause'' := JStr ''false''))"
  let ?un = "parseFilters toNumber (query(''hasRootCause'' := v))"
  have no: "hasRootCause ?no = Some (Some False)"
    by (simp add: parseFilters_hasRootCause tri_state_def is_true_def is_false_def)
  have un: "hasRootCause ?un = (if v = JUndefined then None else Some None)"
    using assms by (simp add: parseFilters_hasRootCause)
  have or_no: "map_of (buildFilter ?no) ''$or'' = Some rootCause_missing"
    by (simp add: buildFilter_or no)
  have or_un: "map_of (buildFilter ?un) ''$or'' = None"
    by (simp add: buildFilter_or un)
  have rc_un: "map_of (buildFilter ?un) ''rootCauseEntity'' = None"
    by (simp add: buildFilter_rootCauseEntity un)
  from or_no or_un have "buildFilter ?no \<noteq> buildFilter ?un"
    by auto
  with no un or_no or_un rc_un show ?thesis
    by (simp add: rootCause_missing_def)
qed

theorem hasRootCause_false_distinct_from_unset_witness:
  "tri_state (JStr ''maybe'') = None \<and> tri_state JUndefined = None
   \<and> buildFilter (parseFilters no_number (only ''hasRootCause'' (JStr ''false'')))
       = [(''$or'', JArr [JObj [(''rootCauseEntity'', JNull)],
                         JObj [(''rootCauseEntity'', JObj [(''$exists'', JBool False)])]])]
   \<and> buildFilter (parseFilters no_number (only ''hasRootCause'' (JStr ''maybe''))) = []
   \<and> buildFilter (parseFilters no_number (only ''hasRootCause'' JUndefined)) = []"
  using hasRootCause_false_distinct_from_unset [of "JStr ''maybe''" no_number "\<lambda>_. JUndefined"]
    hasRootCause_false_distinct_from_unset [of JUndefined no_number "\<lambda>_. JUndefined"]
  by (simp add: tri_state_def is_true_def is_false_def only_def parseFilters_def Let_def
        js_if_def no_filters_def buildFilter_def non_empty_def present_def
        rootCause_missing_def)


section \<open>The repository: counting and bulk retrieval\<close>

lemma length_findAllProblems:
  "length (findAllProblems coll F limit) =
     min (bulk_cap limit)
       (length (find' coll (case F of Some f \<Rightarrow> buildFilter f | None \<Rightarrow> [])))"
  by (cases limit)
     (simp_all add: findAllProblems_def Let_def cursor_limit_def bulk_cap_def min.commute)

lemma findAll_total:
  "findAll rnd coll F page pageSize sortBy asc = Inr r \<Longrightarrow>
     total' r = countDocuments coll (buildFilter F)"
  by (auto simp add: findAll_def Let_def split: sum.splits)

lemma buildFilter_closed:
  "buildFilter closed_filter = [(''status'', JObj [(''$in'', JArr [JStr ''CLOSED''])])]"
  by (simp add: buildFilter_def closed_filter_def no_filters_def Let_def js_if_def
        non_empty_def present_def in_clause_def)

lemma find_closed: "find' status_store (buildFilter closed_filter) = tl scenario"
  by (simp add: buildFilter_closed find'_def status_store_def scenario_def mk_problem_def)

lemma count_closed: "countDocuments status_store (buildFilter closed_filter) = 2"
  using find_closed by (simp add: countDocuments_def find'_def scenario_def)

lemma find_everything: "find' status_store [] = scenario"
  by (simp add: find'_def status_store_def)

text \<open>
  C1: for every filter set \<open>F\<close>, when the number of matching records does not exceed the
  bulk cap, the uncapped match count (\<open>countDocuments\<close> over \<open>buildFilter F\<close>, the \<open>total\<close>
  that \<open>findAll\<close> returns) equals the number of records \<open>findAllProblems\<close> returns for
  \<open>F\<close>: both run the store on the same \<open>buildFilter F\<close>.
\<close>

theorem count_equals_bulk_length:
  assumes "countDocuments coll (buildFilter F) \<le> bulk_cap limit"
  shows "countDocuments coll (buildFilter F) = length (findAllProblems coll (Some F) limit)
     \<and> (\<forall>r. findAll rnd coll F page pageSize sortBy asc = Inr r
            \<longrightarrow> total' r = length (findAllProblems coll (Some F) limit))"
proof -
  have "countDocuments coll (buildFilter F) = length (findAllProblems coll (Some F) limit)"
    using assms by (simp add: length_findAllProblems countDocuments_def find'_def)
  then show ?thesis
    by (auto dest: findAll_total)
qed

theorem count_equals_bulk_length_witness:
  "countDocuments status_store (buildFilter closed_filter) \<le> bulk_cap None
   \<and> countDocuments status_store (buildFilter closed_filter) = 2
   \<and> length (findAllProblems status_store (Some closed_filter) None) = 2
   \<and> map_sum id total' (findAll exact status_store closed_filter 1 10 ''startTime'' False) = Inr 2"
proof -
  have cap: "countDocuments status_store (buildFilter closed_filter) \<le> bulk_cap None"
    by (simp add: count_closed bulk_cap_def)
  have run: "findAll exact status_store closed_filter 1 10 ''startTime'' False
      = Inr (projr (findAll exact status_store closed_filter 1 10 ''startTime'' False))"
    by (simp add: findAll_def Let_def cursor_skip_def)
  from count_equals_bulk_length [OF cap, of exact 1 10 "''startTime''" False] run
  have "total' (projr (findAll exact status_store closed_filter 1 10 ''startTime'' False)) = 2"
    and "length (findAllProblems status_store (Some closed_filter) None) = 2"
    by (simp_all add: count_closed)
  with cap run show ?thesis
    by (metis count_closed id_apply map_sum.simps(2))
qed

text \<open>
  C10: \<open>findAllProblems\<close> treats a supplied limit of 0 as an absent limit and runs under
  the default cap of 10000, so the limit parameter can ask neither for zero records nor
  for an uncapped fetch: the number of records returned is the smaller of the cap in
  force and the number of matching records.  For every supplied non-zero limit \<open>n\<close> at
  most \<open>n\<close> records are returned.
\<close>

theorem findAllProblems_limit:
  "findAllProblems coll F (Some 0) = findAllProblems coll F None
   \<and> length (findAllProblems coll F limit) =
       min (bulk_cap limit)
         (length (find' coll (case F of Some f \<Rightarrow> buildFilter f | None \<Rightarrow> [])))
   \<and> length (findAllProblems coll F None) \<le> 10000
   \<and> (n \<noteq> 0 \<longrightarrow> length (findAllProblems coll F (Some n)) \<le> n)"
proof -
  have "findAllProblems coll F (Some 0) = findAllProblems coll F None"
    by (simp add: findAllProblems_def)
  moreover have "length (findAllProblems coll F None) \<le> 10000"
    by (simp add: length_findAllProblems bulk_cap_def)
  moreover have "n \<noteq> 0 \<longrightarrow> length (findAllProblems coll F (Some n)) \<le> n"
    by (simp add: length_findAllProblems bulk_cap_def)
  ultimately show ?thesis
    using length_findAllProblems by blast
qed

theorem findAllProblems_limit_witness:
  "length (findAllProblems status_store None (Some 0)) = 3
   \<and> length (findAllProblems status_store None None) = 3
   \<and> (2::nat) \<noteq> 0 \<and> length (findAllProblems status_store None (Some 2)) = 2"
  using
    findAllProblems_limit
      [where coll = status_store and F = None and limit = "Some 0" and n = 2]
    findAllProblems_limit
      [where coll = status_store and F = None and limit = "Some 2" and n = 2]
  by (simp add: bulk_cap_def find_everything) (simp add: scenario_def)


section \<open>The repository: appending a comment\<close>

lemma findOneAndUpdate_found:
  "List.find sel ds = Some p \<Longrightarrow> sel (upd p) \<Longrightarrow>
     snd (findOneAndUpdate sel upd ds) = Some (upd p)
     \<and> List.find sel (fst (findOneAndUpdate sel upd ds)) = Some (upd p)
     \<and> length (fst (findOneAndUpdate sel upd ds)) = length ds"
  by (induction ds) (auto split: prod.splits if_splits)

lemma findById_P2: "findById status_store ''P-2'' = Some (scenario ! 1)"
  by (simp add: findById_def status_store_def scenario_def mk_problem_def)

text \<open>
  C9: on a record whose \<open>recentComments.totalCount\<close> equals the length of its comments
  list, \<open>addComment\<close> appends exactly one comment and raises \<open>totalCount\<close> by exactly 1 in
  one update of the stored record, so \<open>totalCount\<close> still equals the length of the
  comments list on the record returned (which is the record now stored).
\<close>

theorem addComment_keeps_totalCount:
  assumes "findById coll pid = Some p"
    and "totalCount (recentComments p) = int (length (comment_list (recentComments p)))"
  shows "snd (addComment coll pid c) = Some (appended c p)
     \<and> findById (fst (addComment coll pid c)) pid = Some (appended c p)
     \<and> comment_list (recentComments (appended c p)) = comment_list (recentComments p) @ [c]
     \<and> totalCount (recentComments (appended c p)) = totalCount (recentComments p) + 1
     \<and> totalCount (recentComments (appended c p))
         = int (length (comment_list (recentComments (appended c p))))"
proof -
  let ?upd = "\<lambda>d. d\<lparr>recentComments := inc_totalCount 1 (push_comment c (recentComments d))\<rparr>"
  have upd: "?upd p = appended c p"
    by (simp add: appended_def inc_totalCount_def push_comment_def comment_list_def
          split: option.splits)
  have found: "List.find (\<lambda>d. problemId d = pid) (docs coll) = Some p"
    using assms(1) by (simp add: findById_def)
  then have "problemId p = pid"
    by (auto simp add: find_Some_iff)
  then have same: "problemId (?upd p) = pid"
    by simp
  obtain ds r where run:
    "findOneAndUpdate (\<lambda>d. problemId d = pid) ?upd (docs coll) = (ds, r)"
    by (cases "findOneAndUpdate (\<lambda>d. problemId d = pid) ?upd (docs coll)")
  from findOneAndUpdate_found [of "\<lambda>d. problemId d = pid" "docs coll" p ?upd, OF found same]
  have "r = Some (appended c p)"
    and "List.find (\<lambda>d. problemId d = pid) ds = Some (appended c p)"
    by (simp_all add: run upd)
  then have "snd (addComment coll pid c) = Some (appended c p)"
    and "findById (fst (addComment coll pid c)) pid = Some (appended c p)"
    by (simp_all add: addComment_def findById_def run)
  moreover have
    "comment_list (recentComments (appended c p)) = comment_list (recentComments p) @ [c]"
    by (simp add: appended_def comment_list_def)
  moreover have
    "totalCount (recentComments (appended c p)) = totalCount (recentComments p) + 1"
    by (simp add: appended_def)
  ultimately show ?thesis
    using assms(2) by simp
qed

theorem addComment_keeps_totalCount_witness:
  "findById status_store ''P-2'' = Some (scenario ! 1)
   \<and> totalCount (recentComments (scenario ! 1)) = 1
   \<and> map_option
        (\<lambda>p. (totalCount (recentComments p), map content (comment_list (recentComments p))))
        (snd (addComment status_store ''P-2'' new_comment))
       = Some (2, [''GitHub Actions deployment success'', ''restarted the service''])"
proof -
  have inv: "totalCount (recentComments (scenario ! 1))
      = int (length (comment_list (recentComments (scenario ! 1))))"
    by (simp add: scenario_def mk_problem_def comment_list_def)
  from addComment_keeps_totalCount [OF findById_P2 inv, of new_comment] findById_P2
  show ?thesis
    by (simp add: appended_def scenario_def mk_problem_def comment_list_def new_comment_def)
qed


section \<open>Top entities\<close>

lemma entityMap_of_concat:
  "foldl (\<lambda>entityMap problem. foldl countEntity entityMap (affectedEntities problem)) m ps
     = foldl countEntity m (all_entities ps)"
  by (induction ps arbitrary: m) (simp_all add: all_entities_def)

lemma keys_add_counts: "map fst (add_counts es m) = map fst m"
  by (induction m) (auto simp add: add_counts_def)

lemma add_counts_Cons: "add_counts (e # es) m = add_counts es (add_counts [e] m)"
  by (induction m) (auto simp add: add_counts_def)

lemma add_counts_fresh:
  "entity_key e \<notin> fst ` set m \<Longrightarrow> add_counts (e # es) m = add_counts es m"
  by (induction m) (auto simp add: add_counts_def)

lemma countEntity_known:
  "entity_key e \<in> fst ` set m \<Longrightarrow> countEntity m e = add_counts [e] m"
proof -
  assume "entity_key e \<in> fst ` set m"
  then have "map_of m (id' (entityId e)) \<noteq> None"
    by (simp add: map_of_eq_None_iff entity_key_def)
  moreover have
    "map (\<lambda>(k, c). if k = key
            then (k, c\<lparr>entityCount.count := entityCount.count c + 1\<rparr>) else (k, c)) m
     = map (\<lambda>(k, c). (k, c\<lparr>entityCount.count :=
            entityCount.count c + length (filter (\<lambda>x. entity_key x = k) [e])\<rparr>)) m"
    if "key = entity_key e" for key
    using that by (induction m) auto
  ultimately show ?thesis
    by (simp add: countEntity_def add_counts_def entity_key_def)
qed

lemma countEntity_fresh:
  "entity_key e \<notin> fst ` set m \<Longrightarrow>
     countEntity m e =
       m @ [(entity_key e,
             \<lparr>entityCount.name = affectedEntity.name e,
              entityCount.type' = entityId.type' (entityId e),
              entityCount.count = 1\<rparr>)]"
  by (simp add: countEntity_def entity_key_def map_of_eq_None_iff)

lemma filter_known:
  "a \<in> A \<Longrightarrow>
     filter (\<lambda>(k, c). k \<notin> A) (filter (\<lambda>(k, c). k \<noteq> a) xs) = filter (\<lambda>(k, c). k \<notin> A) xs"
  by (induction xs) auto

lemma foldl_countEntity:
  "foldl countEntity m es =
     add_counts es m @ filter (\<lambda>(k, c). k \<notin> fst ` set m) (tally es)"
proof (induction es arbitrary: m)
  case Nil
  show ?case
    by (induction m) (auto simp add: add_counts_def)
next
  case (Cons e es)
  show ?case
  proof (cases "entity_key e \<in> fst ` set m")
    case True
    have "fst ` set (add_counts [e] m) = fst ` set m"
      using keys_add_counts [of "[e]" m] by (metis set_map)
    with True Cons.IH [of "add_counts [e] m"] show ?thesis
      by (simp add: countEntity_known add_counts_Cons [of e es m] filter_known
            del: filter_filter)
  next
    case False
    let ?new = "(entity_key e,
             \<lparr>entityCount.name = affectedEntity.name e,
              entityCount.type' = entityId.type' (entityId e),
              entityCount.count = 1\<rparr>)"
    let ?rest = "filter (\<lambda>p. fst p \<notin> fst ` set m \<and> fst p \<noteq> entity_key e) (tally es)"
    have step: "foldl countEntity (m @ [?new]) es =
        add_counts es m @
        (entity_key e,
         \<lparr>entityCount.name = affectedEntity.name e,
          entityCount.type' = entityId.type' (entityId e),
          entityCount.count = Suc (length (filter (\<lambda>x. entity_key x = entity_key e) es))\<rparr>)
        # ?rest"
      unfolding Cons.IH [of "m @ [?new]"]
      by (simp add: add_counts_def case_prod_unfold conj_commute)
    have "filter (\<lambda>(k, c). k \<notin> fst ` set m) (tally (e # es)) =
        (entity_key e,
         \<lparr>entityCount.name = affectedEntity.name e,
          entityCount.type' = entityId.type' (entityId e),
          entityCount.count = Suc (length (filter (\<lambda>x. entity_key x = entity_key e) es))\<rparr>)
        # ?rest"
      using False by (simp add: case_prod_unfold conj_commute)
    with False step show ?thesis
      by (simp add: countEntity_fresh add_counts_fresh)
  qed
qed

lemma entityMap_of_tally: "entityMap_of ps = tally (all_entities ps)"
  unfolding entityMap_of_def entityMap_of_concat
  by (simp add: foldl_countEntity add_counts_def)

lemma keys_tally: "map fst (tally es) = first_seen (map entity_key es)"
proof (induction es)
  case Nil
  show ?case by simp
next
  case (Cons e es)
  have "map fst (filter (\<lambda>(k, c). k \<noteq> entity_key e) (tally es))
      = filter (\<lambda>y. y \<noteq> entity_key e) (map fst (tally es))"
    by (simp add: filter_map comp_def case_prod_unfold)
  with Cons.IH show ?case
    by simp
qed

lemma count_tally:
  "(k, c) \<in> set (tally es) \<Longrightarrow>
     entityCount.count c = length (filter (\<lambda>x. entity_key x = k) es)"
  by (induction es arbitrary: k c) auto

lemma counts_tally:
  "map (\<lambda>(k, c). entityCount.count c) (tally (all_entities ps))
     = map (\<lambda>(k, c). occurrences k ps) (tally (all_entities ps))"
  by (auto simp add: occurrences_def count_tally)

lemma slice0_map: "slice0 n (map f xs) = map f (slice0 n xs)"
  by (cases n) (simp_all add: take_map)

lemma slice0_take: "\<exists>k. slice0 n xs = take k xs"
proof (cases n)
  case PosInf
  then have "slice0 n xs = take (length xs) xs"
    by simp
  then show ?thesis ..
next
  case NaN
  then have "slice0 n xs = take 0 xs"
    by simp
  then show ?thesis ..
next
  case NegInf
  then have "slice0 n xs = take 0 xs"
    by simp
  then show ?thesis ..
next
  case (Fin x)
  then show ?thesis
    by (cases "js_trunc x < 0") auto
qed

lemma getTopEntities_ranking:
  "getTopEntities limit ps = slice0 (limit_or_10 limit) (ranking ps)"
proof -
  have "(\<lambda>entity. \<lparr>topEntity.name = entityCount.name entity,
                    topEntity.type' = entityCount.type' entity,
                    problemCount = entityCount.count entity\<rparr>) = top_entry"
    by (simp add: fun_eq_iff top_entry_def)
  then show ?thesis
    by (simp add: getTopEntities_def ranking_def limit_or_10_def entityMap_of_tally slice0_map)
qed

lemma sorted_ranking: "sorted_wrt (\<ge>) (map problemCount (ranking ps))"
proof -
  have "sorted (map (\<lambda>c. - int (entityCount.count c))
          (sort_key (\<lambda>c. - int (entityCount.count c)) (map snd (tally (all_entities ps)))))"
    by (rule sorted_sort_key)
  then show ?thesis
    by (simp add: ranking_def sorted_wrt_map top_entry_def)
qed

lemma sorted_getTopEntities:
  "sorted_wrt (\<ge>) (map problemCount (getTopEntities limit ps))"
proof -
  obtain k where "getTopEntities limit ps = take k (ranking ps)"
    using slice0_take [of "limit_or_10 limit" "ranking ps"]
    by (auto simp add: getTopEntities_ranking)
  then show ?thesis
    using sorted_wrt_take [OF sorted_ranking, of k ps] by (simp add: take_map)
qed

lemma length_ranking:
  "length (ranking ps) = length (first_seen (map entity_key (all_entities ps)))"
  using keys_tally [of "all_entities ps", THEN arg_cong, of length]
  by (simp add: ranking_def)

lemma set_ranking:
  "set (ranking ps) = top_entry ` snd ` set (tally (all_entities ps))"
  by (simp add: ranking_def)

text \<open>
  C3, as the code has it: \<open>getTopEntities\<close> keeps one entry per distinct affected-entity
  id, in the order of first appearance, with the name and type of the first entity that
  carries the id; the entry's count is the number of occurrences of the id in the
  records' \<open>affectedEntities\<close> lists, an id repeated within one record's list counting
  once per repetition.  The entries are sorted descending by count, entries of equal
  count keeping their order, and cut by \<open>slice(0, limit)\<close>, the default limit being 10: a
  limit \<open>x \<ge> 0\<close> keeps the first \<open>\<lfloor>x\<rfloor>\<close> entries, a limit \<open>x \<le> -1\<close> drops the last
  \<open>-\<lceil>x\<rceil>\<close> entries instead, and a limit between -1 and 0, or NaN, keeps none.
\<close>

theorem getTopEntities_counts_occurrences:
  "entityMap_of ps = tally (all_entities ps)
   \<and> map fst (tally (all_entities ps)) = first_seen (map entity_key (all_entities ps))
   \<and> map (\<lambda>(k, c). entityCount.count c) (tally (all_entities ps))
       = map (\<lambda>(k, c). occurrences k ps) (tally (all_entities ps))
   \<and> length (ranking ps) = length (first_seen (map entity_key (all_entities ps)))
   \<and> set (ranking ps) = top_entry ` snd ` set (tally (all_entities ps))
   \<and> sorted_wrt (\<ge>) (map problemCount (ranking ps))
   \<and> getTopEntities limit ps = slice0 (limit_or_10 limit) (ranking ps)
   \<and> sorted_wrt (\<ge>) (map problemCount (getTopEntities limit ps))
   \<and> getTopEntities None ps = take 10 (ranking ps)
   \<and> (0 \<le> x \<longrightarrow>
        getTopEntities (Some (Fin x)) ps = take (nat \<lfloor>x\<rfloor>) (ranking ps)
        \<and> real (length (getTopEntities (Some (Fin x)) ps)) \<le> x)
   \<and> (x \<le> - 1 \<longrightarrow>
        getTopEntities (Some (Fin x)) ps
          = take (nat (int (length (ranking ps)) + \<lceil>x\<rceil>)) (ranking ps))
   \<and> (- 1 < x \<and> x < 0 \<longrightarrow> getTopEntities (Some (Fin x)) ps = [])
   \<and> getTopEntities (Some NaN) ps = []"
proof -
  have default: "getTopEntities None ps = take 10 (ranking ps)"
    by (simp add: getTopEntities_ranking limit_or_10_def js_trunc_def)
  have nonneg: "0 \<le> x \<longrightarrow>
        getTopEntities (Some (Fin x)) ps = take (nat \<lfloor>x\<rfloor>) (ranking ps)
        \<and> real (length (getTopEntities (Some (Fin x)) ps)) \<le> x"
  proof
    assume x: "0 \<le> x"
    then have eq: "getTopEntities (Some (Fin x)) ps = take (nat \<lfloor>x\<rfloor>) (ranking ps)"
      by (simp add: getTopEntities_ranking limit_or_10_def js_trunc_def)
    have "real (min (length (ranking ps)) (nat \<lfloor>x\<rfloor>)) \<le> real (nat \<lfloor>x\<rfloor>)"
      by simp
    also have "\<dots> \<le> x"
      using x by simp
    finally show "getTopEntities (Some (Fin x)) ps = take (nat \<lfloor>x\<rfloor>) (ranking ps)
        \<and> real (length (getTopEntities (Some (Fin x)) ps)) \<le> x"
      using eq by simp
  qed
  have neg: "x \<le> - 1 \<longrightarrow>
        getTopEntities (Some (Fin x)) ps
          = take (nat (int (length (ranking ps)) + \<lceil>x\<rceil>)) (ranking ps)"
  proof
    assume x: "x \<le> - 1"
    then have "\<lceil>x\<rceil> \<le> - 1"
      by (simp add: ceiling_le_iff)
    with x show "getTopEntities (Some (Fin x)) ps
          = take (nat (int (length (ranking ps)) + \<lceil>x\<rceil>)) (ranking ps)"
      by (simp add: getTopEntities_ranking limit_or_10_def js_trunc_def)
  qed
  have small: "- 1 < x \<and> x < 0 \<longrightarrow> getTopEntities (Some (Fin x)) ps = []"
  proof
    assume x: "- 1 < x \<and> x < 0"
    then have "\<lceil>x\<rceil> = 0"
      by (simp add: ceiling_eq_iff)
    with x show "getTopEntities (Some (Fin x)) ps = []"
      by (simp add: getTopEntities_ranking limit_or_10_def js_trunc_def)
  qed
  have "getTopEntities (Some NaN) ps = []"
    by (simp add: getTopEntities_ranking limit_or_10_def)
  with default nonneg neg small entityMap_of_tally keys_tally counts_tally length_ranking
    set_ranking sorted_ranking getTopEntities_ranking sorted_getTopEntities
  show ?thesis
    by blast
qed

lemma tally_two_records:
  "tally (all_entities two_records) =
     [(Some ''HOST-1'',
       \<lparr>entityCount.name = Some ''web-01'', type' = ''HOST'', count = 1\<rparr>),
      (Some ''SERVICE-7'',
       \<lparr>entityCount.name = Some ''checkout'', type' = ''SERVICE'', count = 3\<rparr>)]"
  by (simp add: all_entities_def two_records_def mk_problem_def host_def service_def
        entity_key_def)

lemma ranking_two_records:
  "ranking two_records =
     [\<lparr>topEntity.name = Some ''checkout'', type' = ''SERVICE'', problemCount = 3\<rparr>,
      \<lparr>topEntity.name = Some ''web-01'', type' = ''HOST'', problemCount = 1\<rparr>]"
  by (simp add: ranking_def tally_two_records top_entry_def)

theorem getTopEntities_counts_occurrences_witness:
  "entityMap_of two_records =
     [(Some ''HOST-1'',
       \<lparr>entityCount.name = Some ''web-01'', type' = ''HOST'', count = 1\<rparr>),
      (Some ''SERVICE-7'',
       \<lparr>entityCount.name = Some ''checkout'', type' = ''SERVICE'', count = 3\<rparr>)]
   \<and> getTopEntities None two_records =
     [\<lparr>topEntity.name = Some ''checkout'', type' = ''SERVICE'', problemCount = 3\<rparr>,
      \<lparr>topEntity.name = Some ''web-01'', type' = ''HOST'', problemCount = 1\<rparr>]
   \<and> (0 :: real) \<le> 1
   \<and> getTopEntities (Some (Fin 1)) two_records =
     [\<lparr>topEntity.name = Some ''checkout'', type' = ''SERVICE'', problemCount = 3\<rparr>]
   \<and> (- 1 :: real) \<le> - 1
   \<and> getTopEntities (Some (Fin (- 1))) two_records =
     [\<lparr>topEntity.name = Some ''checkout'', type' = ''SERVICE'', problemCount = 3\<rparr>]"
proof -
  note at_1 = getTopEntities_counts_occurrences [of two_records None 1]
    and at_minus_1 = getTopEntities_counts_occurrences [of two_records None "- 1"]
  from at_1 have "entityMap_of two_records = tally (all_entities two_records)"
    and "getTopEntities None two_records = take 10 (ranking two_records)"
    by blast+
  moreover from at_1 have "(0 :: real) \<le> 1 \<longrightarrow>
      getTopEntities (Some (Fin 1)) two_records = take (nat \<lfloor>1 :: real\<rfloor>) (ranking two_records)"
    by blast
  moreover from at_minus_1 have "(- 1 :: real) \<le> - 1 \<longrightarrow>
      getTopEntities (Some (Fin (- 1))) two_records
        = take (nat (int (length (ranking two_records)) + \<lceil>- 1 :: real\<rceil>))
            (ranking two_records)"
    by blast
  ultimately show ?thesis
    by (simp add: tally_two_records ranking_two_records ceiling_minus)
qed

text \<open>
  Entities that carry no id share the key \<open>undefined\<close>: they are counted into one entry,
  which has the type of the first of them.
\<close>

lemma getTopEntities_without_ids:
  "getTopEntities None bare_records =
     [\<lparr>topEntity.name = None, type' = ''HOST'', problemCount = 2\<rparr>]"
  by (simp add: getTopEntities_def entityMap_of_def bare_records_def mk_problem_def
        countEntity_def bare_host_def bare_service_def js_trunc_def)

text \<open>
  The claim as stated fails on a record that lists one entity twice: the id appears in
  one record and is counted twice.  It fails on a negative limit too: of two entries,
  the limit -1 keeps one.
\<close>

theorem getTopEntities_repeat_counted_twice:
  "records_with (Some ''HOST-1'') repeated_entity = 1
   \<and> map problemCount (getTopEntities None repeated_entity) = [2]
   \<and> map problemCount (getTopEntities None repeated_entity)
       \<noteq> [records_with (Some ''HOST-1'') repeated_entity]
   \<and> length (getTopEntities (Some PosInf) two_records) = 2
   \<and> length (getTopEntities (Some (Fin (- 1))) two_records) = 1"
  by (simp add: records_with_def getTopEntities_def entityMap_of_def repeated_entity_def
        two_records_def mk_problem_def countEntity_def host_def service_def entity_key_def
        js_trunc_def ceiling_minus)

end
